theory Spec2Isabelle
  imports Complex_Main
begin

section \<open>The pricing script \<^verbatim>\<open>spreadsheet.py\<close>\<close>

text \<open>
  The script computes a customer price from material and labour costs by a fixed-point
  iteration (\<^verbatim>\<open>compute_final_price\<close>) and reports it (\<^verbatim>\<open>main\<close>).

  Numbers are modelled as exact reals, and the decimal literals of the source (\<^verbatim>\<open>0.0913\<close>,
  \<^verbatim>\<open>1e-6\<close>, ...) are taken at their decimal value. The Python runs on binary floating
  point: every operation rounds to a nearest double, can overflow to an infinity and then
  yield a NaN, and \<^verbatim>\<open>round(x, 2)\<close> acts on the double \<open>x\<close> and returns a double, where the
  embedding rounds the exact value to the nearest multiple of \<open>1/100\<close>, ties to the even
  one. The embedding and the code agree on the control flow and on which quantity is computed
  from which; they agree on values up to these rounding errors. A value within a rounding
  error of a decimal tie can round to the other side: \<^verbatim>\<open>150 * (1 + 0.0913)\<close> is 163.695
  here and rounds to 163.70, and is a double just below that in the code, which rounds to
  163.69.

  The universal theorems of the claims state what does not depend on the arithmetic, or name
  the bound on the inputs under which the floating-point evaluation stays finite. The lemmas
  on the recurrence (when the loop converges, when it diverges) hold in exact arithmetic.
  The concrete inputs evaluated below are chosen so that either every intermediate value is
  a small dyadic number (exact in floating point as well) or the compared quantities are
  apart by many orders of magnitude more than a rounding error of the floating-point
  evaluation.
\<close>

subsection \<open>Errors\<close>

text \<open>
  \<^verbatim>\<open>ValueError("... MATERIALS list is empty ...")\<close> of \<^verbatim>\<open>main\<close>,
  \<^verbatim>\<open>RuntimeError("Convergence failed")\<close> of the \<^verbatim>\<open>for ... else\<close>, and the
  \<^verbatim>\<open>ZeroDivisionError\<close> that Python raises for \<^verbatim>\<open>total_cost / (1 - profit_margin)\<close>
  when the divisor is zero.
\<close>

datatype error = EmptyMaterialsError | ConvergenceError | ZeroDivisionError

subsection \<open>Inputs (module constants)\<close>

record line_item =
  name :: string
  qty :: real
  unit_cost :: real

definition MATERIALS :: "line_item list" where
  "MATERIALS =
     [\<lparr>name = ''4/0 THHN Copper Roll'', qty = 1, unit_cost = 1200\<rparr>,
      \<lparr>name = ''2 in. Rigid Conduit 10 ft'', qty = 50, unit_cost = 40\<rparr>]"

definition LABOR_HOURS :: real where "LABOR_HOURS = 20"
definition LABOR_RATE :: real where "LABOR_RATE = 80"

definition TAX_RATE :: real where "TAX_RATE = 913 / 10000"
definition OVERHEAD_RATE :: real where "OVERHEAD_RATE = 6666 / 10000"
definition PROFIT_MARGIN :: real where "PROFIT_MARGIN = 23 / 100"
definition COMMISSION_RATE :: real where "COMMISSION_RATE = 20 / 100"

text \<open>The defaults of the keyword parameters \<^verbatim>\<open>tol=1e-6, max_iter=1000\<close>.\<close>

definition default_tol :: real where "default_tol = 1 / 1000000"
definition default_max_iter :: int where "default_max_iter = 1000"

subsection \<open>Rounding to two decimals\<close>

definition round_half_even :: "real \<Rightarrow> int" where
  "round_half_even y =
     (let f = \<lfloor>y\<rfloor>; d = y - of_int f
      in if d < 1 / 2 then f
         else if 1 / 2 < d then f + 1
         else if even f then f else f + 1)"

definition round2 :: "real \<Rightarrow> real" where
  "round2 x = of_int (round_half_even (x * 100)) / 100"

subsection \<open>The local variables of \<^verbatim>\<open>compute_final_price\<close>\<close>

record locals =
  taxed_material :: real
  price :: real
  profit :: real
  commission :: real
  total_labor :: real
  base_cost :: real
  overhead :: real
  total_cost :: real
  new_price :: real

text \<open>
  Lines 42 to 48: one pass through the loop body up to the tolerance test, from the
  current \<open>price\<close>. The result holds every local variable as it stands when the test
  \<^verbatim>\<open>abs(new_price - price) < tol\<close> is evaluated. The division is guarded by the caller.
\<close>

definition loop_body :: "real \<Rightarrow> real \<Rightarrow> real \<Rightarrow> real \<Rightarrow> real \<Rightarrow> real \<Rightarrow> locals" where
  "loop_body labor_cost overhead_rate profit_margin commission_rate taxed_mat cur_price =
     (let profit = cur_price * profit_margin;
          commission = profit * commission_rate;
          total_labor = labor_cost + commission;
          base_cost = taxed_mat + total_labor;
          overhead = base_cost * overhead_rate;
          total_cost = base_cost + overhead;
          new_price = total_cost / (1 - profit_margin)
      in \<lparr>taxed_material = taxed_mat, price = cur_price, profit = profit,
          commission = commission, total_labor = total_labor, base_cost = base_cost,
          overhead = overhead, total_cost = total_cost, new_price = new_price\<rparr>)"

text \<open>
  Lines 41 to 54: \<^verbatim>\<open>for _ in range(max_iter): ... else: raise\<close>. The first argument is
  the number of passes left. The result is the history of the tolerance tests that were
  evaluated (the local variables at each of them, oldest first) and the outcome: an
  error, or the local variables at the \<^verbatim>\<open>break\<close>, where \<open>price\<close> has just been set to
  \<open>new_price\<close> and the other variables are those of the last pass.
\<close>

fun for_loop ::
  "nat \<Rightarrow> real \<Rightarrow> real \<Rightarrow> real \<Rightarrow> real \<Rightarrow> real \<Rightarrow> real \<Rightarrow> real \<Rightarrow> locals list \<times> (error + locals)"
where
  "for_loop 0 labor_cost overhead_rate profit_margin commission_rate tol taxed_mat cur_price =
     ([], Inl ConvergenceError)"
| "for_loop (Suc n) labor_cost overhead_rate profit_margin commission_rate tol taxed_mat cur_price =
     (if 1 - profit_margin = 0 then ([], Inl ZeroDivisionError)
      else
        let s = loop_body labor_cost overhead_rate profit_margin commission_rate
                  taxed_mat cur_price
        in if \<bar>new_price s - cur_price\<bar> < tol
           then ([s], Inr (s\<lparr>price := new_price s\<rparr>))
           else (case for_loop n labor_cost overhead_rate profit_margin commission_rate tol
                        taxed_mat (new_price s)
                 of (checks, outcome) \<Rightarrow> (s # checks, outcome)))"

text \<open>Lines 57 to 62: the quantities are assigned again, from the accepted price.\<close>

definition final_breakdown :: "real \<Rightarrow> real \<Rightarrow> real \<Rightarrow> real \<Rightarrow> locals \<Rightarrow> locals" where
  "final_breakdown labor_cost overhead_rate profit_margin commission_rate s =
     (let profit = price s * profit_margin;
          commission = profit * commission_rate;
          total_labor = labor_cost + commission;
          base_cost = taxed_material s + total_labor;
          overhead = base_cost * overhead_rate;
          total_cost = base_cost + overhead
      in s\<lparr>profit := profit, commission := commission, total_labor := total_labor,
           base_cost := base_cost, overhead := overhead, total_cost := total_cost\<rparr>)"

text \<open>Lines 64 to 74: the dictionary literal, in insertion order.\<close>

definition breakdown :: "real \<Rightarrow> real \<Rightarrow> locals \<Rightarrow> (string \<times> real) list" where
  "breakdown material_cost labor_cost s =
     [(''Material Raw'', round2 material_cost),
      (''Material Taxed'', round2 (taxed_material s)),
      (''Labor Base'', round2 labor_cost),
      (''Commission'', round2 (commission s)),
      (''Labor Total'', round2 (total_labor s)),
      (''Overhead'', round2 (overhead s)),
      (''Total Cost'', round2 (total_cost s)),
      (''Profit'', round2 (profit s)),
      (''Final Price'', round2 (price s))]"

text \<open>
  Lines 39 to 54 of \<^verbatim>\<open>compute_final_price\<close>: the history of tolerance tests and the
  outcome of the loop. \<^verbatim>\<open>range(max_iter)\<close> is empty for \<open>max_iter \<le> 0\<close>.
\<close>

definition resolve ::
  "real \<Rightarrow> real \<Rightarrow> real \<Rightarrow> real \<Rightarrow> real \<Rightarrow> real \<Rightarrow> real \<Rightarrow> int \<Rightarrow> locals list \<times> (error + locals)"
where
  "resolve material_cost labor_cost tax_rate overhead_rate profit_margin commission_rate
     tol max_iter =
     (let taxed_mat = material_cost * (1 + tax_rate);
          init_price = taxed_mat + labor_cost
      in for_loop (nat max_iter) labor_cost overhead_rate profit_margin commission_rate tol
           taxed_mat init_price)"

definition tolerance_checks ::
  "real \<Rightarrow> real \<Rightarrow> real \<Rightarrow> real \<Rightarrow> real \<Rightarrow> real \<Rightarrow> real \<Rightarrow> int \<Rightarrow> locals list"
where
  "tolerance_checks material_cost labor_cost tax_rate overhead_rate profit_margin
     commission_rate tol max_iter =
     fst (resolve material_cost labor_cost tax_rate overhead_rate profit_margin
            commission_rate tol max_iter)"

text \<open>The whole function: the pair of the rounded price and the breakdown, or the error.\<close>

definition compute_final_price ::
  "real \<Rightarrow> real \<Rightarrow> real \<Rightarrow> real \<Rightarrow> real \<Rightarrow> real \<Rightarrow> real \<Rightarrow> int
     \<Rightarrow> error + real \<times> (string \<times> real) list"
where
  "compute_final_price material_cost labor_cost tax_rate overhead_rate profit_margin
     commission_rate tol max_iter =
     (case snd (resolve material_cost labor_cost tax_rate overhead_rate profit_margin
                  commission_rate tol max_iter) of
        Inl e \<Rightarrow> Inl e
      | Inr s \<Rightarrow>
          (let s' = final_breakdown labor_cost overhead_rate profit_margin commission_rate s
           in Inr (round2 (price s'), breakdown material_cost labor_cost s')))"

text \<open>
  The variant the specification allows: the quantities of the last pass are kept and
  lines 57 to 62 are skipped.
\<close>

definition compute_final_price_retaining ::
  "real \<Rightarrow> real \<Rightarrow> real \<Rightarrow> real \<Rightarrow> real \<Rightarrow> real \<Rightarrow> real \<Rightarrow> int
     \<Rightarrow> error + real \<times> (string \<times> real) list"
where
  "compute_final_price_retaining material_cost labor_cost tax_rate overhead_rate
     profit_margin commission_rate tol max_iter =
     (case snd (resolve material_cost labor_cost tax_rate overhead_rate profit_margin
                  commission_rate tol max_iter) of
        Inl e \<Rightarrow> Inl e
      | Inr s \<Rightarrow> Inr (round2 (price s), breakdown material_cost labor_cost s))"

subsection \<open>\<^verbatim>\<open>main\<close>, up to the call of the resolver\<close>

text \<open>
  The steps of a run that the claims speak about: a line total stored in an item, and
  the call of \<^verbatim>\<open>compute_final_price\<close> with its two arguments.
\<close>

datatype event = LineTotal string real | ResolverCall real real

text \<open>
  Lines 78 to 88. The item dictionaries get the key \<^verbatim>\<open>line_total\<close>; an item with its
  line total is a pair. The result is the log of steps and either the error or what the
  console and the PDF are rendered from (the items with their totals, the final price and
  the breakdown). The rate parameters are the defaults of \<^verbatim>\<open>compute_final_price\<close>.
\<close>

definition main ::
  "line_item list \<Rightarrow> real \<Rightarrow> real
     \<Rightarrow> event list \<times> (error + (line_item \<times> real) list \<times> real \<times> (string \<times> real) list)"
where
  "main materials labor_hours labor_rate =
     (if materials = [] then ([], Inl EmptyMaterialsError)
      else
        let items = map (\<lambda>itm. (itm, qty itm * unit_cost itm)) materials;
            raw_total = sum_list (map snd items);
            labor_base = labor_hours * labor_rate
        in (map (\<lambda>(itm, t). LineTotal (name itm) t) items @ [ResolverCall raw_total labor_base],
            case compute_final_price raw_total labor_base TAX_RATE OVERHEAD_RATE PROFIT_MARGIN
                   COMMISSION_RATE default_tol default_max_iter of
              Inl e \<Rightarrow> Inl e
            | Inr (final_price, bd) \<Rightarrow> Inr (items, final_price, bd)))"

subsection \<open>The recurrence\<close>

text \<open>
  One pass maps \<open>price\<close> to \<open>fixed_part + contraction * price\<close>: the loop iterates an
  affine map whose slope is \<open>contraction\<close>.
\<close>

definition contraction :: "real \<Rightarrow> real \<Rightarrow> real \<Rightarrow> real" where
  "contraction overhead_rate profit_margin commission_rate =
     profit_margin * commission_rate * (1 + overhead_rate) / (1 - profit_margin)"

text \<open>The change of the price in the first pass.\<close>

definition first_change :: "real \<Rightarrow> real \<Rightarrow> real \<Rightarrow> real \<Rightarrow> real \<Rightarrow> real \<Rightarrow> real" where
  "first_change material_cost labor_cost tax_rate overhead_rate profit_margin commission_rate =
     (let taxed_mat = material_cost * (1 + tax_rate);
          init_price = taxed_mat + labor_cost
      in new_price (loop_body labor_cost overhead_rate profit_margin commission_rate
                      taxed_mat init_price) - init_price)"

section \<open>Properties\<close>

subsection \<open>Rounding\<close>

lemma round_half_even_close: "\<bar>of_int (round_half_even y) - y\<bar> \<le> 1 / 2"
  unfolding round_half_even_def Let_def
  by (auto simp: abs_le_iff)

lemma round2_close: "\<bar>round2 x - x\<bar> \<le> 5 / 1000"
proof -
  have "\<bar>of_int (round_half_even (x * 100)) - x * 100\<bar> \<le> 1 / 2"
    by (rule round_half_even_close)
  then show ?thesis unfolding round2_def by (simp add: abs_le_iff field_simps)
qed

subsection \<open>One pass of the loop is an affine map of the price\<close>

lemma new_price_affine:
  "new_price (loop_body lc oh pm cr tm p) =
     (tm + lc) * (1 + oh) / (1 - pm) + contraction oh pm cr * p"
proof -
  have "(tm + lc) * (1 + oh) / (1 - pm) + pm * cr * (1 + oh) / (1 - pm) * p =
        ((tm + lc) * (1 + oh) + pm * cr * (1 + oh) * p) / (1 - pm)"
    by (simp add: add_divide_distrib)
  also have "(tm + lc) * (1 + oh) + pm * cr * (1 + oh) * p =
             tm + (lc + p * pm * cr) + (tm + (lc + p * pm * cr)) * oh"
    by (simp add: algebra_simps)
  finally show ?thesis
    unfolding loop_body_def contraction_def Let_def by simp
qed

lemma step_change:
  "new_price (loop_body lc oh pm cr tm (new_price (loop_body lc oh pm cr tm p)))
     - new_price (loop_body lc oh pm cr tm p) =
   contraction oh pm cr * (new_price (loop_body lc oh pm cr tm p) - p)"
  unfolding new_price_affine by (simp add: algebra_simps)

lemma loop_body_fields:
  "taxed_material (loop_body lc oh pm cr tm p) = tm"
  "price (loop_body lc oh pm cr tm p) = p"
  "profit (loop_body lc oh pm cr tm p) = p * pm"
  "commission (loop_body lc oh pm cr tm p) = p * pm * cr"
  "total_labor (loop_body lc oh pm cr tm p) = lc + p * pm * cr"
  "base_cost (loop_body lc oh pm cr tm p) = tm + (lc + p * pm * cr)"
  "overhead (loop_body lc oh pm cr tm p) = (tm + (lc + p * pm * cr)) * oh"
  "total_cost (loop_body lc oh pm cr tm p) =
     tm + (lc + p * pm * cr) + (tm + (lc + p * pm * cr)) * oh"
  by (simp_all add: loop_body_def Let_def)

subsection \<open>Unfolding the loop\<close>

declare for_loop.simps [simp del]

lemma snd_for_loop_0:
  "snd (for_loop 0 lc oh pm cr tol tm p) = Inl ConvergenceError"
  by (simp add: for_loop.simps)

lemma snd_for_loop_Suc:
  "snd (for_loop (Suc n) lc oh pm cr tol tm p) =
     (if 1 - pm = 0 then Inl ZeroDivisionError
      else if \<bar>new_price (loop_body lc oh pm cr tm p) - p\<bar> < tol
      then Inr ((loop_body lc oh pm cr tm p)\<lparr>price := new_price (loop_body lc oh pm cr tm p)\<rparr>)
      else snd (for_loop n lc oh pm cr tol tm (new_price (loop_body lc oh pm cr tm p))))"
  by (simp add: for_loop.simps Let_def split: prod.split)

lemma fst_for_loop_0:
  "fst (for_loop 0 lc oh pm cr tol tm p) = []"
  by (simp add: for_loop.simps)

lemma fst_for_loop_Suc:
  "fst (for_loop (Suc n) lc oh pm cr tol tm p) =
     (if 1 - pm = 0 then []
      else if \<bar>new_price (loop_body lc oh pm cr tm p) - p\<bar> < tol
      then [loop_body lc oh pm cr tm p]
      else loop_body lc oh pm cr tm p
             # fst (for_loop n lc oh pm cr tol tm (new_price (loop_body lc oh pm cr tm p))))"
  by (simp add: for_loop.simps Let_def split: prod.split)

subsection \<open>What holds at every tolerance test and at the exit\<close>

lemma for_loop_checks:
  "c \<in> set (fst (for_loop n lc oh pm cr tol tm p)) \<Longrightarrow>
     taxed_material c = tm \<and> (\<exists>x. c = loop_body lc oh pm cr tm x)"
proof (induction n arbitrary: p)
  case 0
  then show ?case by (simp add: fst_for_loop_0)
next
  case (Suc n)
  then show ?case
    by (auto simp: fst_for_loop_Suc loop_body_fields split: if_splits)
qed

lemma for_loop_first_check:
  "fst (for_loop n lc oh pm cr tol tm p) \<noteq> [] \<Longrightarrow>
     hd (fst (for_loop n lc oh pm cr tol tm p)) = loop_body lc oh pm cr tm p"
  by (cases n) (auto simp: fst_for_loop_0 fst_for_loop_Suc split: if_splits)

lemma for_loop_exit:
  "snd (for_loop n lc oh pm cr tol tm p) = Inr s \<Longrightarrow>
     pm \<noteq> 1 \<and>
     (\<exists>x. s = (loop_body lc oh pm cr tm x)\<lparr>price := new_price (loop_body lc oh pm cr tm x)\<rparr> \<and>
          \<bar>new_price (loop_body lc oh pm cr tm x) - x\<bar> < tol \<and>
          fst (for_loop n lc oh pm cr tol tm p) \<noteq> [] \<and>
          last (fst (for_loop n lc oh pm cr tol tm p)) = loop_body lc oh pm cr tm x)"
proof (induction n arbitrary: p)
  case 0
  then show ?case by (simp add: snd_for_loop_0)
next
  case (Suc n)
  show ?case
  proof (cases "\<bar>new_price (loop_body lc oh pm cr tm p) - p\<bar> < tol")
    case True
    with Suc.prems show ?thesis
      by (auto simp: snd_for_loop_Suc fst_for_loop_Suc split: if_splits)
  next
    case False
    with Suc.prems have pm: "1 - pm \<noteq> 0"
      and rest: "snd (for_loop n lc oh pm cr tol tm (new_price (loop_body lc oh pm cr tm p))) = Inr s"
      by (auto simp: snd_for_loop_Suc split: if_splits)
    from Suc.IH[OF rest] False pm show ?thesis
      by (auto simp: fst_for_loop_Suc)
  qed
qed





subsection \<open>When the loop succeeds and when it fails\<close>

text \<open>
  In exact arithmetic the change of the price is multiplied by \<open>contraction\<close> in every
  pass, which decides the outcome of the loop.
\<close>

lemma for_loop_converges:
  assumes pm: "pm \<noteq> 1"
    and q: "\<bar>contraction oh pm cr\<bar> \<le> 1"
    and n: "n < N"
    and small: "\<bar>contraction oh pm cr\<bar> ^ n * \<bar>new_price (loop_body lc oh pm cr tm p) - p\<bar> < tol"
  shows "\<exists>s. snd (for_loop N lc oh pm cr tol tm p) = Inr s \<and>
           length (fst (for_loop N lc oh pm cr tol tm p)) \<le> Suc n \<and>
           \<bar>new_price (loop_body lc oh pm cr tm (price s)) - price s\<bar> < tol"
  using n small
proof (induction N arbitrary: n p)
  case 0
  then show ?case by simp
next
  case (Suc N)
  let ?p' = "new_price (loop_body lc oh pm cr tm p)"
  let ?q = "contraction oh pm cr"
  show ?case
  proof (cases "\<bar>?p' - p\<bar> < tol")
    case True
    have "\<bar>new_price (loop_body lc oh pm cr tm ?p') - ?p'\<bar> = \<bar>?q\<bar> * \<bar>?p' - p\<bar>"
      by (simp add: step_change abs_mult)
    also have "\<dots> \<le> 1 * \<bar>?p' - p\<bar>"
      by (rule mult_right_mono[OF q]) simp
    finally have "\<bar>new_price (loop_body lc oh pm cr tm ?p') - ?p'\<bar> < tol"
      using True by simp
    with True pm show ?thesis
      by (simp add: snd_for_loop_Suc fst_for_loop_Suc)
  next
    case False
    then obtain m where m: "n = Suc m"
      using Suc.prems(2) by (cases n) auto
    have "\<bar>?q\<bar> ^ m * \<bar>new_price (loop_body lc oh pm cr tm ?p') - ?p'\<bar> = \<bar>?q\<bar> ^ n * \<bar>?p' - p\<bar>"
      by (simp add: step_change abs_mult m)
    with Suc.prems
    have "\<bar>?q\<bar> ^ m * \<bar>new_price (loop_body lc oh pm cr tm ?p') - ?p'\<bar> < tol"
      by simp
    moreover have "m < N" using Suc.prems(1) m by simp
    ultimately obtain s where
      "snd (for_loop N lc oh pm cr tol tm ?p') = Inr s"
      "length (fst (for_loop N lc oh pm cr tol tm ?p')) \<le> Suc m"
      "\<bar>new_price (loop_body lc oh pm cr tm (price s)) - price s\<bar> < tol"
      using Suc.IH by blast
    with False pm m show ?thesis
      by (simp add: snd_for_loop_Suc fst_for_loop_Suc)
  qed
qed

lemma for_loop_diverges:
  assumes pm: "pm \<noteq> 1"
    and q: "1 \<le> \<bar>contraction oh pm cr\<bar>"
    and big: "tol \<le> \<bar>new_price (loop_body lc oh pm cr tm p) - p\<bar>"
  shows "snd (for_loop N lc oh pm cr tol tm p) = Inl ConvergenceError"
  using big
proof (induction N arbitrary: p)
  case 0
  then show ?case by (simp add: snd_for_loop_0)
next
  case (Suc N)
  let ?p' = "new_price (loop_body lc oh pm cr tm p)"
  have "1 * \<bar>?p' - p\<bar> \<le> \<bar>contraction oh pm cr\<bar> * \<bar>?p' - p\<bar>"
    by (rule mult_right_mono[OF q]) simp
  also have "\<dots> = \<bar>new_price (loop_body lc oh pm cr tm ?p') - ?p'\<bar>"
    by (simp add: step_change abs_mult)
  finally have "tol \<le> \<bar>new_price (loop_body lc oh pm cr tm ?p') - ?p'\<bar>"
    using Suc.prems by simp
  from Suc.IH[OF this] Suc.prems pm show ?case
    by (simp add: snd_for_loop_Suc)
qed

subsection \<open>Concrete runs\<close>

lemmas run_simps =
  TAX_RATE_def OVERHEAD_RATE_def PROFIT_MARGIN_def COMMISSION_RATE_def default_tol_def
  default_max_iter_def eval_nat_numeral snd_for_loop_0 snd_for_loop_Suc new_price_affine
  contraction_def compute_final_price_def compute_final_price_retaining_def resolve_def Let_def

lemmas finish_simps = loop_body_def final_breakdown_def breakdown_def Let_def

lemmas round_simps = round2_def round_half_even_def

lemma scenario_a_value:
  "compute_final_price 3200 1600 TAX_RATE OVERHEAD_RATE PROFIT_MARGIN COMMISSION_RATE
     default_tol default_max_iter =
   Inr (1224023 / 100,
        [(''Material Raw'', 3200), (''Material Taxed'', 349216 / 100),
         (''Labor Base'', 1600), (''Commission'', 56305 / 100),
         (''Labor Total'', 216305 / 100), (''Overhead'', 376976 / 100),
         (''Total Cost'', 942497 / 100), (''Profit'', 281525 / 100),
         (''Final Price'', 1224023 / 100)])"
  apply (simp add: run_simps)
  apply (simp add: finish_simps)
  apply (simp add: round_simps)
  done

lemma scenario_a_contracting:
  "\<bar>contraction OVERHEAD_RATE PROFIT_MARGIN COMMISSION_RATE\<bar> \<le> 1"
  "\<bar>contraction OVERHEAD_RATE PROFIT_MARGIN COMMISSION_RATE\<bar> ^ 10 *
     \<bar>first_change 3200 1600 TAX_RATE OVERHEAD_RATE PROFIT_MARGIN COMMISSION_RATE\<bar> < default_tol"
  by (simp_all add: first_change_def new_price_affine contraction_def Let_def TAX_RATE_def
        OVERHEAD_RATE_def PROFIT_MARGIN_def COMMISSION_RATE_def default_tol_def power_divide)

lemma dyadic_run_value:
  "compute_final_price 0 1 0 0 (1 / 2) (1 / 2) 1 5 =
   Inr (13 / 4,
        [(''Material Raw'', 0), (''Material Taxed'', 0), (''Labor Base'', 1),
         (''Commission'', 81 / 100), (''Labor Total'', 181 / 100), (''Overhead'', 0),
         (''Total Cost'', 181 / 100), (''Profit'', 162 / 100), (''Final Price'', 13 / 4)])"
  apply (simp add: run_simps)
  apply (simp add: finish_simps)
  apply (simp add: round_simps)
  done

lemma dyadic_run_checks:
  "tolerance_checks 0 1 0 0 (1 / 2) (1 / 2) 1 5 =
     [\<lparr>taxed_material = 0, price = 1, profit = 1 / 2, commission = 1 / 4,
       total_labor = 5 / 4, base_cost = 5 / 4, overhead = 0, total_cost = 5 / 4,
       new_price = 5 / 2\<rparr>,
      \<lparr>taxed_material = 0, price = 5 / 2, profit = 5 / 4, commission = 5 / 8,
       total_labor = 13 / 8, base_cost = 13 / 8, overhead = 0, total_cost = 13 / 8,
       new_price = 13 / 4\<rparr>]"
  apply (simp add: tolerance_checks_def resolve_def eval_nat_numeral fst_for_loop_Suc
      new_price_affine contraction_def)
  apply (simp add: loop_body_def Let_def)
  done



lemma shipped_run:
  "main MATERIALS LABOR_HOURS LABOR_RATE =
     ([LineTotal ''4/0 THHN Copper Roll'' 1200, LineTotal ''2 in. Rigid Conduit 10 ft'' 2000,
       ResolverCall 3200 1600],
      Inr ([(\<lparr>name = ''4/0 THHN Copper Roll'', qty = 1, unit_cost = 1200\<rparr>, 1200),
            (\<lparr>name = ''2 in. Rigid Conduit 10 ft'', qty = 50, unit_cost = 40\<rparr>, 2000)],
           1224023 / 100,
           [(''Material Raw'', 3200), (''Material Taxed'', 349216 / 100),
            (''Labor Base'', 1600), (''Commission'', 56305 / 100),
            (''Labor Total'', 216305 / 100), (''Overhead'', 376976 / 100),
            (''Total Cost'', 942497 / 100), (''Profit'', 281525 / 100),
            (''Final Price'', 1224023 / 100)]))"
  by (simp add: main_def MATERIALS_def LABOR_HOURS_def LABOR_RATE_def scenario_a_value)

text \<open>
  With the default rates and a profit margin of \<open>0.9\<close> the slope of the recurrence is
  about 3, and the call for the costs of the shipped inputs fails as well.
\<close>

lemma default_rates_diverge:
  "compute_final_price 3200 1600 TAX_RATE OVERHEAD_RATE (9 / 10) COMMISSION_RATE
     default_tol default_max_iter = Inl ConvergenceError"
proof -
  have "snd (for_loop (nat default_max_iter) 1600 OVERHEAD_RATE (9 / 10) COMMISSION_RATE
               default_tol (3200 * (1 + TAX_RATE)) (3200 * (1 + TAX_RATE) + 1600))
          = Inl ConvergenceError"
    by (rule for_loop_diverges)
       (simp_all add: contraction_def new_price_affine default_tol_def TAX_RATE_def
          OVERHEAD_RATE_def COMMISSION_RATE_def)
  then show ?thesis
    by (simp add: compute_final_price_def resolve_def)
qed

subsection \<open>The result of a successful call\<close>

lemma resolve_exit:
  assumes "snd (resolve mc lc tax oh pm cr tol max_iter) = Inr s"
  shows "pm \<noteq> 1"
    and "\<exists>x. s = (loop_body lc oh pm cr (mc * (1 + tax)) x)
                  \<lparr>price := new_price (loop_body lc oh pm cr (mc * (1 + tax)) x)\<rparr> \<and>
             \<bar>new_price (loop_body lc oh pm cr (mc * (1 + tax)) x) - x\<bar> < tol"
  using for_loop_exit[of "nat max_iter" lc oh pm cr tol "mc * (1 + tax)" "mc * (1 + tax) + lc" s]
    assms
  unfolding resolve_def Let_def by blast+

lemma compute_final_price_Inr:
  assumes "compute_final_price mc lc tax oh pm cr tol max_iter = Inr r"
  shows "\<exists>s. snd (resolve mc lc tax oh pm cr tol max_iter) = Inr s \<and>
           r = (round2 (price (final_breakdown lc oh pm cr s)),
                breakdown mc lc (final_breakdown lc oh pm cr s))"
  using assms unfolding compute_final_price_def Let_def
  by (auto split: sum.splits)

lemma compute_final_price_of_resolve:
  assumes "snd (resolve mc lc tax oh pm cr tol max_iter) = Inr s"
  shows "compute_final_price mc lc tax oh pm cr tol max_iter =
           Inr (round2 (price s), breakdown mc lc (final_breakdown lc oh pm cr s))"
  using assms unfolding compute_final_price_def Let_def final_breakdown_def
  by simp

lemma final_breakdown_fields:
  "taxed_material (final_breakdown lc oh pm cr s) = taxed_material s"
  "price (final_breakdown lc oh pm cr s) = price s"
  "new_price (final_breakdown lc oh pm cr s) = new_price s"
  "profit (final_breakdown lc oh pm cr s) = price s * pm"
  "commission (final_breakdown lc oh pm cr s) = price s * pm * cr"
  "total_labor (final_breakdown lc oh pm cr s) = lc + price s * pm * cr"
  "base_cost (final_breakdown lc oh pm cr s) = taxed_material s + (lc + price s * pm * cr)"
  "overhead (final_breakdown lc oh pm cr s) =
     (taxed_material s + (lc + price s * pm * cr)) * oh"
  "total_cost (final_breakdown lc oh pm cr s) =
     taxed_material s + (lc + price s * pm * cr)
       + (taxed_material s + (lc + price s * pm * cr)) * oh"
  by (simp_all add: final_breakdown_def Let_def)

lemma final_total_cost_is_next_price:
  "total_cost (final_breakdown lc oh pm cr s) / (1 - pm) =
     new_price (loop_body lc oh pm cr (taxed_material s) (price s))"
  by (simp add: final_breakdown_fields loop_body_def Let_def)

section \<open>The claims\<close>







text \<open>
  C3, as stated: in scenario A (material cost 3200, labour cost 1600, default rates,
  tolerance and pass count) the call converges and the returned final price equals
  \<open>total_cost / (1 - 0.23)\<close> to within the tolerance, the total cost being recomputed from
  that price. The call converges, but the returned price is rounded to two decimals: it is
  12240.23, one more pass from it moves it by more than 0.004, and the rounded total cost
  of the breakdown divided by 0.77 is more than 0.009 away from it.
\<close>

theorem scenario_a_rounded_price_counterexample:
  "compute_final_price 3200 1600 TAX_RATE OVERHEAD_RATE PROFIT_MARGIN COMMISSION_RATE
     default_tol default_max_iter =
   Inr (1224023 / 100,
        [(''Material Raw'', 3200), (''Material Taxed'', 349216 / 100),
         (''Labor Base'', 1600), (''Commission'', 56305 / 100),
         (''Labor Total'', 216305 / 100), (''Overhead'', 376976 / 100),
         (''Total Cost'', 942497 / 100), (''Profit'', 281525 / 100),
         (''Final Price'', 1224023 / 100)]) \<and>
   4 / 1000 < \<bar>total_cost (loop_body 1600 OVERHEAD_RATE PROFIT_MARGIN COMMISSION_RATE
                              (3200 * (1 + TAX_RATE)) (1224023 / 100)) / (1 - PROFIT_MARGIN)
                 - 1224023 / 100\<bar> \<and>
   9 / 1000 < \<bar>(942497 / 100) / (1 - PROFIT_MARGIN) - 1224023 / 100\<bar> \<and>
   default_tol < 4 / 1000"
proof (intro conjI)
  show "4 / 1000 < \<bar>total_cost (loop_body 1600 OVERHEAD_RATE PROFIT_MARGIN COMMISSION_RATE
                              (3200 * (1 + TAX_RATE)) (1224023 / 100)) / (1 - PROFIT_MARGIN)
                 - 1224023 / 100\<bar>"
    by (simp add: loop_body_fields TAX_RATE_def OVERHEAD_RATE_def PROFIT_MARGIN_def
          COMMISSION_RATE_def)
  show "9 / 1000 < \<bar>(942497 / 100) / (1 - PROFIT_MARGIN) - 1224023 / 100\<bar>"
    by (simp add: PROFIT_MARGIN_def)
  show "default_tol < 4 / 1000"
    by (simp add: default_tol_def)
qed (rule scenario_a_value)

text \<open>
  C3, amended: in scenario A the call converges within 11 passes, and the converged price
  before rounding equals \<open>total_cost / (1 - 0.23)\<close> to within the tolerance \<open>1e-6\<close>, the
  total cost being the one recomputed from that price for the breakdown. The returned final
  price is that price rounded to two decimals, 12240.23, at most 0.005 away from it. The
  costs 3200 and 1600 are what \<^verbatim>\<open>main\<close> passes to the resolver for the shipped line items
  (line totals 1200 and 2000) and 20 hours at 80.
\<close>

theorem scenario_a_converges:
  "\<exists>s. snd (resolve 3200 1600 TAX_RATE OVERHEAD_RATE PROFIT_MARGIN COMMISSION_RATE
               default_tol default_max_iter) = Inr s \<and>
        length (tolerance_checks 3200 1600 TAX_RATE OVERHEAD_RATE PROFIT_MARGIN
                  COMMISSION_RATE default_tol default_max_iter) \<le> 11 \<and>
        \<bar>total_cost (final_breakdown 1600 OVERHEAD_RATE PROFIT_MARGIN COMMISSION_RATE s)
            / (1 - PROFIT_MARGIN) - price s\<bar> < default_tol \<and>
        compute_final_price 3200 1600 TAX_RATE OVERHEAD_RATE PROFIT_MARGIN COMMISSION_RATE
          default_tol default_max_iter =
          Inr (round2 (price s),
               breakdown 3200 1600
                 (final_breakdown 1600 OVERHEAD_RATE PROFIT_MARGIN COMMISSION_RATE s)) \<and>
        round2 (price s) = 1224023 / 100 \<and>
        \<bar>round2 (price s) - price s\<bar> \<le> 5 / 1000 \<and>
        fst (main MATERIALS LABOR_HOURS LABOR_RATE) =
          [LineTotal ''4/0 THHN Copper Roll'' 1200,
           LineTotal ''2 in. Rigid Conduit 10 ft'' 2000, ResolverCall 3200 1600]"
proof -
  let ?tm = "3200 * (1 + TAX_RATE)"
  have pm: "PROFIT_MARGIN \<noteq> 1" by (simp add: PROFIT_MARGIN_def)
  have n: "10 < nat default_max_iter" by (simp add: default_max_iter_def)
  from for_loop_converges[OF pm scenario_a_contracting(1) n, of 1600 ?tm "?tm + 1600" default_tol]
    scenario_a_contracting(2)
  obtain s where s: "snd (resolve 3200 1600 TAX_RATE OVERHEAD_RATE PROFIT_MARGIN
                            COMMISSION_RATE default_tol default_max_iter) = Inr s"
    and len: "length (tolerance_checks 3200 1600 TAX_RATE OVERHEAD_RATE PROFIT_MARGIN
                        COMMISSION_RATE default_tol default_max_iter) \<le> 11"
    and step: "\<bar>new_price (loop_body 1600 OVERHEAD_RATE PROFIT_MARGIN COMMISSION_RATE
                              ?tm (price s)) - price s\<bar> < default_tol"
    unfolding first_change_def resolve_def tolerance_checks_def Let_def by auto
  from resolve_exit(2)[OF s] have tm: "taxed_material s = ?tm"
    by (auto simp: loop_body_fields)
  have consistent:
    "\<bar>total_cost (final_breakdown 1600 OVERHEAD_RATE PROFIT_MARGIN COMMISSION_RATE s)
        / (1 - PROFIT_MARGIN) - price s\<bar> < default_tol"
    using step by (simp add: final_total_cost_is_next_price tm)
  note result = compute_final_price_of_resolve[OF s]
  from result scenario_a_value have rounded: "round2 (price s) = 1224023 / 100"
    by simp
  have shipped: "fst (main MATERIALS LABOR_HOURS LABOR_RATE) =
          [LineTotal ''4/0 THHN Copper Roll'' 1200,
           LineTotal ''2 in. Rigid Conduit 10 ft'' 2000, ResolverCall 3200 1600]"
    by (simp add: shipped_run)
  show ?thesis
    by (rule exI[of _ s])
       (intro conjI s len consistent result rounded round2_close shipped)
qed

text \<open>
  C4: with \<open>max_iter = 0\<close> the call fails with the convergence error, whatever the other
  arguments are, and no tolerance test is evaluated.
\<close>

theorem zero_iterations_fail:
  "compute_final_price material_cost labor_cost tax_rate overhead_rate profit_margin
     commission_rate tol 0 = Inl ConvergenceError \<and>
   tolerance_checks material_cost labor_cost tax_rate overhead_rate profit_margin
     commission_rate tol 0 = []"
  by (simp add: compute_final_price_def tolerance_checks_def resolve_def Let_def
        snd_for_loop_0 fst_for_loop_0)

text \<open>
  C5: with an empty material list the run fails with the empty-materials error before
  anything else happens: no line total is computed and the resolver is not called.
\<close>

theorem empty_materials_fail:
  "main [] labor_hours labor_rate = ([], Inl EmptyMaterialsError)"
  by (simp add: main_def)

text \<open>
  C6: with material cost 0 and labour cost 0, and the default rates, tolerance and pass
  count, the call succeeds and the final price is 0 (as is every entry of the breakdown).
\<close>

theorem zero_costs_zero_price:
  "compute_final_price 0 0 TAX_RATE OVERHEAD_RATE PROFIT_MARGIN COMMISSION_RATE
     default_tol default_max_iter =
   Inr (0,
        [(''Material Raw'', 0), (''Material Taxed'', 0), (''Labor Base'', 0),
         (''Commission'', 0), (''Labor Total'', 0), (''Overhead'', 0),
         (''Total Cost'', 0), (''Profit'', 0), (''Final Price'', 0)])"
  apply (simp add: run_simps)
  apply (simp add: finish_simps)
  apply (simp add: round_simps)
  done

text \<open>
  The distance between a value and its rounding to two decimals is at most 0.005 in exact
  arithmetic, and the bound is attained at the decimal ties: the taxed material cost for a
  material cost of 1250 at the shipped tax rate is 1364.125 and rounds to 1364.12. Whether
  the double that the code stores for 1364.12 is within 0.005 of 1364.125 depends on the
  representation error of binary floating point, which the exact reals of this embedding do
  not have; C7 is therefore not stated here.
\<close>

lemma rounding_bound_attained:
  "1250 * (1 + TAX_RATE) = 1364125 / 1000 \<and>
   round2 (1250 * (1 + TAX_RATE)) = 136412 / 100 \<and>
   \<bar>round2 (1250 * (1 + TAX_RATE)) - 1250 * (1 + TAX_RATE)\<bar> = 5 / 1000"
  by (simp add: TAX_RATE_def round2_def round_half_even_def)

text \<open>
  C8: the taxed material cost is \<open>material_cost * (1 + tax_rate)\<close>, fixed before the loop:
  at every tolerance test of a call the variable \<open>taxed_material\<close> has that value, and the
  base cost of the pass was computed from it; on success it still has it at the exit. The
  first pass starts from the price \<open>taxed_material + labor_cost\<close>.
\<close>

theorem taxed_material_constant:
  "(\<forall>c \<in> set (tolerance_checks material_cost labor_cost tax_rate overhead_rate profit_margin
                   commission_rate tol max_iter).
      taxed_material c = material_cost * (1 + tax_rate) \<and>
      base_cost c = material_cost * (1 + tax_rate) + total_labor c) \<and>
   (tolerance_checks material_cost labor_cost tax_rate overhead_rate profit_margin
      commission_rate tol max_iter \<noteq> [] \<longrightarrow>
    price (hd (tolerance_checks material_cost labor_cost tax_rate overhead_rate profit_margin
                 commission_rate tol max_iter)) =
      material_cost * (1 + tax_rate) + labor_cost) \<and>
   (\<forall>s. snd (resolve material_cost labor_cost tax_rate overhead_rate profit_margin
                commission_rate tol max_iter) = Inr s \<longrightarrow>
        taxed_material s = material_cost * (1 + tax_rate))"
proof (intro conjI ballI allI impI)
  fix c
  assume "c \<in> set (tolerance_checks material_cost labor_cost tax_rate overhead_rate
                      profit_margin commission_rate tol max_iter)"
  then have c: "c \<in> set (fst (for_loop (nat max_iter) labor_cost overhead_rate profit_margin
                    commission_rate tol (material_cost * (1 + tax_rate))
                    (material_cost * (1 + tax_rate) + labor_cost)))"
    by (simp add: tolerance_checks_def resolve_def Let_def)
  from for_loop_checks[OF c] show "taxed_material c = material_cost * (1 + tax_rate)"
    by blast
  from for_loop_checks[OF c]
  show "base_cost c = material_cost * (1 + tax_rate) + total_labor c"
    by (auto simp: loop_body_fields)
next
  assume "tolerance_checks material_cost labor_cost tax_rate overhead_rate profit_margin
            commission_rate tol max_iter \<noteq> []"
  then have "fst (for_loop (nat max_iter) labor_cost overhead_rate profit_margin
                    commission_rate tol (material_cost * (1 + tax_rate))
                    (material_cost * (1 + tax_rate) + labor_cost)) \<noteq> []"
    by (simp add: tolerance_checks_def resolve_def Let_def)
  from for_loop_first_check[OF this]
  show "price (hd (tolerance_checks material_cost labor_cost tax_rate overhead_rate
                     profit_margin commission_rate tol max_iter)) =
          material_cost * (1 + tax_rate) + labor_cost"
    by (simp add: tolerance_checks_def resolve_def Let_def loop_body_fields)
next
  fix s
  assume "snd (resolve material_cost labor_cost tax_rate overhead_rate profit_margin
                 commission_rate tol max_iter) = Inr s"
  from resolve_exit(2)[OF this] show "taxed_material s = material_cost * (1 + tax_rate)"
    by (auto simp: loop_body_fields)
qed

theorem taxed_material_constant_witness:
  "length (tolerance_checks 0 1 0 0 (1 / 2) (1 / 2) 1 5) = 2 \<and>
   taxed_material (tolerance_checks 0 1 0 0 (1 / 2) (1 / 2) 1 5 ! 0) = 0 * (1 + 0) \<and>
   taxed_material (tolerance_checks 0 1 0 0 (1 / 2) (1 / 2) 1 5 ! 1) = 0 * (1 + 0) \<and>
   base_cost (tolerance_checks 0 1 0 0 (1 / 2) (1 / 2) 1 5 ! 1) =
     0 * (1 + 0) + total_labor (tolerance_checks 0 1 0 0 (1 / 2) (1 / 2) 1 5 ! 1) \<and>
   price (hd (tolerance_checks 0 1 0 0 (1 / 2) (1 / 2) 1 5)) = 0 * (1 + 0) + 1"
proof -
  have len: "length (tolerance_checks 0 1 0 0 (1 / 2) (1 / 2) 1 5) = 2"
    by (simp add: dyadic_run_checks)
  then have mem: "tolerance_checks 0 1 0 0 (1 / 2) (1 / 2) 1 5 ! 0
                    \<in> set (tolerance_checks 0 1 0 0 (1 / 2) (1 / 2) 1 5)"
      "tolerance_checks 0 1 0 0 (1 / 2) (1 / 2) 1 5 ! 1
                    \<in> set (tolerance_checks 0 1 0 0 (1 / 2) (1 / 2) 1 5)"
    and ne: "tolerance_checks 0 1 0 0 (1 / 2) (1 / 2) 1 5 \<noteq> []"
    by (simp_all del: One_nat_def) auto
  from taxed_material_constant[of 0 1 0 0 "1 / 2" "1 / 2" 1 5] len mem ne
  show ?thesis by blast
qed

text \<open>
  C9: on every successful call the first component of the result is the value stored under
  the key \<open>Final Price\<close> of the breakdown: both are the accepted price rounded to two
  decimals.
\<close>

theorem final_price_in_breakdown:
  assumes "compute_final_price material_cost labor_cost tax_rate overhead_rate profit_margin
             commission_rate tol max_iter = Inr (final_price, bd)"
  shows "map_of bd ''Final Price'' = Some final_price \<and>
         (\<exists>s. snd (resolve material_cost labor_cost tax_rate overhead_rate profit_margin
                     commission_rate tol max_iter) = Inr s \<and>
              final_price = round2 (price s))"
proof -
  from compute_final_price_Inr[OF assms] obtain s where
    s: "snd (resolve material_cost labor_cost tax_rate overhead_rate profit_margin
               commission_rate tol max_iter) = Inr s"
    and fp: "final_price =
               round2 (price (final_breakdown labor_cost overhead_rate profit_margin
                                commission_rate s))"
    and bd: "bd = breakdown material_cost labor_cost
                    (final_breakdown labor_cost overhead_rate profit_margin commission_rate s)"
    by auto
  have "map_of bd ''Final Price'' = Some final_price"
    by (simp add: bd fp breakdown_def)
  moreover have "final_price = round2 (price s)"
    by (simp add: fp final_breakdown_fields)
  ultimately show ?thesis using s by blast
qed

theorem final_price_in_breakdown_witness:
  "compute_final_price 0 1 0 0 (1 / 2) (1 / 2) 1 5 =
     Inr (13 / 4,
          [(''Material Raw'', 0), (''Material Taxed'', 0), (''Labor Base'', 1),
           (''Commission'', 81 / 100), (''Labor Total'', 181 / 100), (''Overhead'', 0),
           (''Total Cost'', 181 / 100), (''Profit'', 162 / 100), (''Final Price'', 13 / 4)]) \<and>
   map_of [(''Material Raw'', 0), (''Material Taxed'', 0), (''Labor Base'', 1),
           (''Commission'', 81 / 100), (''Labor Total'', 181 / 100), (''Overhead'', 0),
           (''Total Cost'', 181 / 100), (''Profit'', 162 / 100), (''Final Price'', 13 / 4)]
     ''Final Price'' = Some (13 / 4 :: real)"
  using final_price_in_breakdown[OF dyadic_run_value] dyadic_run_value
  by blast

text \<open>
  C10, as stated: whenever \<open>profit_margin * commission_rate = 0\<close>, \<open>profit_margin < 1\<close> and
  \<open>max_iter \<ge> 2\<close>, the call does not raise the convergence error. It does for a tolerance
  that is not positive: with tolerance 0 the test \<open>abs(new_price - price) < 0\<close> is false
  even when the price no longer changes (here the price is 1 in both passes).
\<close>

theorem zero_tolerance_counterexample:
  "(0 :: real) * COMMISSION_RATE = 0 \<and> (0 :: real) < 1 \<and> (2 :: int) \<le> 2 \<and>
   compute_final_price 0 1 0 0 0 COMMISSION_RATE 0 2 = Inl ConvergenceError"
  by (simp add: run_simps)

text \<open>
  C10, amended: whenever \<open>profit_margin * commission_rate = 0\<close>, \<open>profit_margin < 1\<close>,
  \<open>max_iter \<ge> 2\<close>, the tolerance is positive and the six numeric inputs are at most
  \<open>10^50\<close> in absolute value, the call succeeds after at most two tolerance tests, and the
  accepted price is the new price of the first pass: the new price does not depend on the
  current price. (The bound on the inputs keeps every intermediate value of the code's
  double-precision evaluation finite; the exact arithmetic of this embedding does not need
  it.)
\<close>

theorem no_commission_converges_bounded:
  assumes "profit_margin * commission_rate = 0" and "profit_margin < 1"
    and "2 \<le> max_iter" and "0 < tol"
    and "\<bar>material_cost\<bar> \<le> 10 ^ 50" and "\<bar>labor_cost\<bar> \<le> 10 ^ 50"
    and "\<bar>tax_rate\<bar> \<le> 10 ^ 50" and "\<bar>overhead_rate\<bar> \<le> 10 ^ 50"
    and "\<bar>profit_margin\<bar> \<le> 10 ^ 50" and "\<bar>commission_rate\<bar> \<le> 10 ^ 50"
  shows "\<exists>s. snd (resolve material_cost labor_cost tax_rate overhead_rate profit_margin
                    commission_rate tol max_iter) = Inr s \<and>
           length (tolerance_checks material_cost labor_cost tax_rate overhead_rate
                     profit_margin commission_rate tol max_iter) \<le> 2 \<and>
           price s = new_price (hd (tolerance_checks material_cost labor_cost tax_rate
                                      overhead_rate profit_margin commission_rate tol max_iter)) \<and>
           compute_final_price material_cost labor_cost tax_rate overhead_rate profit_margin
             commission_rate tol max_iter =
             Inr (round2 (price s),
                  breakdown material_cost labor_cost
                    (final_breakdown labor_cost overhead_rate profit_margin commission_rate s))"
proof -
  let ?tm = "material_cost * (1 + tax_rate)"
  let ?run = "for_loop (nat max_iter) labor_cost overhead_rate profit_margin commission_rate
                tol ?tm (?tm + labor_cost)"
  let ?body = "loop_body labor_cost overhead_rate profit_margin commission_rate ?tm"
  have checks: "tolerance_checks material_cost labor_cost tax_rate overhead_rate profit_margin
                  commission_rate tol max_iter = fst ?run"
    and outcome: "resolve material_cost labor_cost tax_rate overhead_rate profit_margin
                    commission_rate tol max_iter = ?run"
    by (simp_all add: tolerance_checks_def resolve_def Let_def)
  have pm: "profit_margin \<noteq> 1" using assms(2) by simp
  have q: "contraction overhead_rate profit_margin commission_rate = 0"
    using assms(1) by (simp add: contraction_def)
  have const: "new_price (?body x) = new_price (?body y)" for x y
    by (simp add: new_price_affine q)
  have q1: "\<bar>contraction overhead_rate profit_margin commission_rate\<bar> \<le> 1"
    by (simp add: q)
  have n: "1 < nat max_iter" using assms(3) by simp
  have small: "\<bar>contraction overhead_rate profit_margin commission_rate\<bar> ^ 1 *
          \<bar>new_price (?body (?tm + labor_cost)) - (?tm + labor_cost)\<bar> < tol"
    using assms(4) by (simp add: q)
  from for_loop_converges[OF pm q1 n small]
  obtain s where s: "snd ?run = Inr s" and len: "length (fst ?run) \<le> 2"
    by auto
  from for_loop_exit[OF s] obtain x where
    sx: "s = (?body x)\<lparr>price := new_price (?body x)\<rparr>" and ne: "fst ?run \<noteq> []"
    by blast
  have first: "price s = new_price (hd (fst ?run))"
    using const[of x "?tm + labor_cost"]
    by (simp add: sx for_loop_first_check[OF ne])
  have result: "compute_final_price material_cost labor_cost tax_rate overhead_rate profit_margin
             commission_rate tol max_iter =
             Inr (round2 (price s),
                  breakdown material_cost labor_cost
                    (final_breakdown labor_cost overhead_rate profit_margin commission_rate s))"
    by (rule compute_final_price_of_resolve) (simp add: outcome s)
  show ?thesis
    unfolding checks outcome
    by (rule exI[of _ s]) (intro conjI s len first result[unfolded checks outcome])
qed

theorem no_commission_converges_bounded_witness:
  "(0 :: real) * COMMISSION_RATE = 0 \<and> (0 :: real) < 1 \<and> (2 :: int) \<le> 2 \<and>
   0 < default_tol \<and>
   \<bar>3200 :: real\<bar> \<le> 10 ^ 50 \<and> \<bar>1600 :: real\<bar> \<le> 10 ^ 50 \<and> \<bar>TAX_RATE\<bar> \<le> 10 ^ 50 \<and>
   \<bar>OVERHEAD_RATE\<bar> \<le> 10 ^ 50 \<and> \<bar>0 :: real\<bar> \<le> 10 ^ 50 \<and> \<bar>COMMISSION_RATE\<bar> \<le> 10 ^ 50 \<and>
   (\<exists>s. snd (resolve 3200 1600 TAX_RATE OVERHEAD_RATE 0 COMMISSION_RATE default_tol 2) = Inr s \<and>
        length (tolerance_checks 3200 1600 TAX_RATE OVERHEAD_RATE 0 COMMISSION_RATE
                  default_tol 2) \<le> 2 \<and>
        price s = new_price (hd (tolerance_checks 3200 1600 TAX_RATE OVERHEAD_RATE 0
                                   COMMISSION_RATE default_tol 2)) \<and>
        compute_final_price 3200 1600 TAX_RATE OVERHEAD_RATE 0 COMMISSION_RATE default_tol 2 =
          Inr (round2 (price s),
               breakdown 3200 1600 (final_breakdown 1600 OVERHEAD_RATE 0 COMMISSION_RATE s)))"
proof -
  have h1: "(0 :: real) * COMMISSION_RATE = 0" and h2: "(0 :: real) < 1"
    and h3: "(2 :: int) \<le> 2" and h4: "0 < default_tol"
    by (simp_all add: default_tol_def)
  have b1: "\<bar>3200 :: real\<bar> \<le> 10 ^ 50" and b2: "\<bar>1600 :: real\<bar> \<le> 10 ^ 50"
    and b3: "\<bar>TAX_RATE\<bar> \<le> 10 ^ 50" and b4: "\<bar>OVERHEAD_RATE\<bar> \<le> 10 ^ 50"
    and b5: "\<bar>0 :: real\<bar> \<le> 10 ^ 50" and b6: "\<bar>COMMISSION_RATE\<bar> \<le> 10 ^ 50"
    by (simp_all add: TAX_RATE_def OVERHEAD_RATE_def COMMISSION_RATE_def)
  from no_commission_converges_bounded[OF h1 h2 h3 h4 b1 b2 b3 b4 b5 b6]
    h1 h2 h3 h4 b1 b2 b3 b4 b5 b6
  show ?thesis by blast
qed

end
